theory Spec2Isabelle
  imports Complex_Main
begin

section \<open>Data model of ECommerceDemo.cpp\<close>

text \<open>
  The C++ types are embedded as follows.
  \<^item> \<open>double\<close> is IEEE 754 binary64: a value is a rational that the format represents,
    an infinity or NaN, and every arithmetic operation rounds its exact result to the
    nearest representable value, a tie going to the even significand. Each operation is
    rounded on its own: no fused multiply-add and no wider intermediate format. The two
    zeros are one value; the program never divides, and they differ only in a printed sign.
  \<^item> \<open>int\<close> is the type of mathematical integers: signed overflow is undefined in C++,
    so no wrap-around is written out.
  \<^item> \<open>std::time_t\<close> is an integer number of seconds; the clock reading \<open>now\<close> that
    \<open>ExpirableProduct::isExpired\<close> takes from \<open>std::time\<close> is a parameter.
  \<^item> \<open>Product*\<close> is an address, a natural number; the products live in a store that
    maps every address to the object there. \<open>std::map<Product*, int>\<close> orders its keys
    by \<open>std::less<Product*>\<close>, the order of the addresses.
\<close>

subsection \<open>Binary64 arithmetic\<close>

datatype double = Finite rat | PlusInf | MinusInf | NaN

text \<open>The number of binary digits of a positive integer.\<close>

function bits :: "int \<Rightarrow> int" where
  "bits n = (if n \<le> 0 then 0 else 1 + bits (n div 2))"
  by pat_completeness auto
termination
  by (relation "measure nat") auto

declare bits.simps [simp del]

text \<open>
  \<open>exponent x\<close> is the integer \<open>e\<close> with \<open>2 ^ e \<le> \<bar>x\<bar> < 2 ^ (e + 1)\<close>, for
  \<open>x\<close> other than 0, and \<open>pow2 k\<close> is the power of 2 with an integer exponent.
\<close>

definition exponent :: "rat \<Rightarrow> int" where
  "exponent x =
     (if 1 \<le> \<bar>x\<bar> then bits \<lfloor>\<bar>x\<bar>\<rfloor> - 1
      else - bits (\<lceil>1 / \<bar>x\<bar>\<rceil> - 1))"

definition pow2 :: "int \<Rightarrow> rat" where
  "pow2 k = (if 0 \<le> k then 2 ^ nat k else 1 / 2 ^ nat (- k))"

definition round_half_even :: "rat \<Rightarrow> int" where
  "round_half_even x =
     (let f = \<lfloor>x\<rfloor>; d = x - of_int f
      in if d < 1 / 2 then f
         else if 1 / 2 < d then f + 1
         else if even f then f else f + 1)"

text \<open>
  Rounding to binary64. The significand has 53 bits, so the representable values next to
  \<open>x\<close> are the multiples of \<open>2 ^ (e - 52)\<close>, where \<open>e\<close> is the exponent of \<open>x\<close> and at
  least -1022 (below that the values are subnormal, multiples of \<open>2 ^ -1074\<close>). A result
  of magnitude \<open>2 ^ 1024\<close> or more is an infinity. A decimal literal such as \<open>0.4\<close> denotes
  \<open>round_to_double (4 / 10)\<close>.
\<close>

definition round_to_double :: "rat \<Rightarrow> double" where
  "round_to_double x =
     (if x = 0 then Finite 0
      else let ulp = pow2 (max (exponent x) (- 1022) - 52);
               y = of_int (round_half_even (x / ulp)) * ulp
           in if pow2 1024 \<le> y then PlusInf
              else if y \<le> - pow2 1024 then MinusInf
              else Finite y)"

text \<open>The operators \<open>+\<close>, unary and binary \<open>-\<close>, \<open>*\<close> and \<open><\<close> on \<open>double\<close>, and \<open>std::ceil\<close>.\<close>

fun fadd :: "double \<Rightarrow> double \<Rightarrow> double" where
  "fadd (Finite a) (Finite b) = round_to_double (a + b)"
| "fadd NaN y = NaN"
| "fadd x NaN = NaN"
| "fadd PlusInf MinusInf = NaN"
| "fadd MinusInf PlusInf = NaN"
| "fadd PlusInf y = PlusInf"
| "fadd x PlusInf = PlusInf"
| "fadd MinusInf y = MinusInf"
| "fadd x MinusInf = MinusInf"

fun fneg :: "double \<Rightarrow> double" where
  "fneg (Finite a) = Finite (- a)"
| "fneg PlusInf = MinusInf"
| "fneg MinusInf = PlusInf"
| "fneg NaN = NaN"

definition fsub :: "double \<Rightarrow> double \<Rightarrow> double" where
  "fsub x y = fadd x (fneg y)"

definition infinity :: "bool \<Rightarrow> double" where
  "infinity negative = (if negative then MinusInf else PlusInf)"

fun fmul :: "double \<Rightarrow> double \<Rightarrow> double" where
  "fmul (Finite a) (Finite b) = round_to_double (a * b)"
| "fmul NaN y = NaN"
| "fmul x NaN = NaN"
| "fmul (Finite a) PlusInf = (if a = 0 then NaN else infinity (a < 0))"
| "fmul (Finite a) MinusInf = (if a = 0 then NaN else infinity (0 < a))"
| "fmul PlusInf (Finite b) = (if b = 0 then NaN else infinity (b < 0))"
| "fmul MinusInf (Finite b) = (if b = 0 then NaN else infinity (0 < b))"
| "fmul PlusInf PlusInf = PlusInf"
| "fmul PlusInf MinusInf = MinusInf"
| "fmul MinusInf PlusInf = MinusInf"
| "fmul MinusInf MinusInf = PlusInf"

fun fceil :: "double \<Rightarrow> double" where
  "fceil (Finite a) = Finite (of_int \<lceil>a\<rceil>)"
| "fceil PlusInf = PlusInf"
| "fceil MinusInf = MinusInf"
| "fceil NaN = NaN"

fun flt :: "double \<Rightarrow> double \<Rightarrow> bool" where
  "flt (Finite a) (Finite b) = (a < b)"
| "flt NaN y = False"
| "flt x NaN = False"
| "flt x MinusInf = False"
| "flt PlusInf y = False"
| "flt MinusInf y = True"
| "flt x PlusInf = True"

text \<open>
  The conversion of an \<open>int\<close> to \<open>double\<close>, as in \<open>getPrice() * qty\<close> and
  \<open>totalWeight * 10\<close>: every 32-bit integer is representable, so it is exact.
\<close>

definition int_to_double :: "int \<Rightarrow> double" where
  "int_to_double n = Finite (of_int n)"

subsection \<open>Products and customers\<close>

type_synonym time_t = int
type_synonym addr = nat

text \<open>
  The class hierarchy under \<open>Product\<close> (lines 21 to 74): the base class holds name, price
  and quantity; the four subclasses differ in whether they carry an expiry date and whether
  they implement the interface \<open>ShippableProduct\<close> with a weight.
\<close>

datatype variety =
    SimpleProduct
  | ExpirableProduct time_t
  | ShippableItem double
  | ExpirableShippableItem time_t double

record product =
  name :: string
  price :: double
  quantity :: int
  variety :: variety

type_synonym store = "addr \<Rightarrow> product"

text \<open>\<open>Product::isExpired\<close> (line 29) and its override (lines 43 to 47).\<close>

definition isExpired :: "time_t \<Rightarrow> product \<Rightarrow> bool" where
  "isExpired now p =
     (case variety p of
        SimpleProduct \<Rightarrow> False
      | ExpirableProduct expiryDate \<Rightarrow> expiryDate < now
      | ShippableItem w \<Rightarrow> False
      | ExpirableShippableItem expiryDate w \<Rightarrow> expiryDate < now)"

text \<open>
  The view of an object through \<open>ShippableProduct\<close> (lines 13 to 18): \<open>getName\<close> and
  \<open>getWeight\<close>. \<open>as_shippable\<close> is \<open>dynamic_cast<ShippableProduct*>\<close>, with
  \<open>None\<close> for the null pointer.
\<close>

record shippable =
  getName :: string
  getWeight :: double

definition as_shippable :: "product \<Rightarrow> shippable option" where
  "as_shippable p =
     (case variety p of
        SimpleProduct \<Rightarrow> None
      | ExpirableProduct expiryDate \<Rightarrow> None
      | ShippableItem w \<Rightarrow> Some \<lparr>getName = name p, getWeight = w\<rparr>
      | ExpirableShippableItem expiryDate w \<Rightarrow> Some \<lparr>getName = name p, getWeight = w\<rparr>)"

definition isShippable :: "product \<Rightarrow> bool" where
  "isShippable p = (as_shippable p \<noteq> None)"

definition reduceQuantity :: "int \<Rightarrow> product \<Rightarrow> product" where
  "reduceQuantity amount p = p\<lparr>quantity := quantity p - amount\<rparr>"

text \<open>\<open>Customer\<close> (lines 77 to 85).\<close>

record customer =
  customer_name :: string
  balance :: double

definition deductBalance :: "double \<Rightarrow> customer \<Rightarrow> customer" where
  "deductBalance amount c = c\<lparr>balance := fsub (balance c) amount\<rparr>"

text \<open>
  The outcomes that the program reports. \<open>Cart::add\<close> throws \<open>std::runtime_error\<close> with
  the texts "Quantity must be positive", "<name> is expired" and "Not enough stock for
  <name>"; \<open>checkout\<close> prints "Error: Cart is empty", "Error: <name> is expired",
  "Error: Not enough stock for <name>" and "Error: Insufficient balance" and returns.
\<close>

datatype failure =
    InvalidQuantity
  | ExpiredProduct string
  | InsufficientStock string
  | InsufficientBalance
  | EmptyCart

section \<open>Cart\<close>

text \<open>
  \<open>Cart\<close> (lines 88 to 100) has one field, a \<open>std::map\<close> from product pointers to
  quantities. The map is the list of its entries in iteration order, which is ascending
  key order. \<open>map_plus k q\<close> is the statement \<open>items[k] += q\<close>: \<open>operator[]\<close> inserts
  the value 0 at the key's place when the key is absent.
\<close>

record cart =
  items :: "(addr \<times> int) list"

fun map_plus :: "addr \<Rightarrow> int \<Rightarrow> (addr \<times> int) list \<Rightarrow> (addr \<times> int) list" where
  "map_plus k q [] = [(k, 0 + q)]"
| "map_plus k q ((k', v) # es) =
     (if k = k' then (k', v + q) # es
      else if k < k' then (k, 0 + q) # (k', v) # es
      else (k', v) # map_plus k q es)"

definition isEmpty :: "cart \<Rightarrow> bool" where
  "isEmpty c = (items c = [])"

definition clear :: "cart \<Rightarrow> cart" where
  "clear c = c\<lparr>items := []\<rparr>"

text \<open>
  \<open>Cart::add\<close> (lines 91 to 96). The result is the exception thrown, if any, with the
  store and the cart as the call leaves them.
\<close>

definition add :: "time_t \<Rightarrow> store \<Rightarrow> addr \<Rightarrow> int \<Rightarrow> cart \<Rightarrow> failure option \<times> store \<times> cart" where
  "add now h product qty c =
     (if qty \<le> 0 then (Some InvalidQuantity, h, c)
      else if isExpired now (h product) then (Some (ExpiredProduct (name (h product))), h, c)
      else if qty > quantity (h product) then (Some (InsufficientStock (name (h product))), h, c)
      else (None, h, c\<lparr>items := map_plus product qty (items c)\<rparr>))"

text \<open>
  A run of \<open>add\<close> calls inside one \<open>try\<close> block, as in \<open>main\<close> (lines 207 to 214 and
  224 to 230): the first exception leaves the block, the calls before it have taken effect.
\<close>

fun add_all :: "time_t \<Rightarrow> store \<Rightarrow> (addr \<times> int) list \<Rightarrow> cart \<Rightarrow> failure option \<times> store \<times> cart" where
  "add_all now h [] c = (None, h, c)"
| "add_all now h ((product, qty) # calls) c =
     (case add now h product qty c of
        (Some e, h', c') \<Rightarrow> (Some e, h', c')
      | (None, h', c') \<Rightarrow> add_all now h' calls c')"

section \<open>Number output\<close>

text \<open>
  \<open>static_cast<int>\<close> of a \<open>double\<close> discards the fractional part (lines 168 to 175).
  When the value is not finite or its integer part is outside the range of a 32-bit
  \<open>int\<close>, C++ leaves the conversion undefined: the result is \<open>None\<close>, a figure about
  which nothing is known.
\<close>

definition static_cast_int :: "double \<Rightarrow> int option" where
  "static_cast_int x =
     (case x of
        Finite a \<Rightarrow>
          (let n = (if a < 0 then \<lceil>a\<rceil> else \<lfloor>a\<rfloor>)
           in if - (2 ^ 31) \<le> n \<and> n < 2 ^ 31 then Some n else None)
      | PlusInf \<Rightarrow> None
      | MinusInf \<Rightarrow> None
      | NaN \<Rightarrow> None)"

text \<open>
  A \<open>double\<close> written with \<open>std::fixed\<close> and \<open>std::setprecision(n)\<close> (lines 118 and
  121): the exact value of the double is rounded to the nearest multiple of \<open>10 ^ -n\<close>,
  a tie going to the even neighbour. \<open>fixed n x\<close> is the number printed, as a multiple
  of \<open>10 ^ -n\<close>, and \<open>None\<close> when the text is "inf" or "nan".
\<close>

definition fixed :: "nat \<Rightarrow> double \<Rightarrow> int option" where
  "fixed n x =
     (case x of
        Finite a \<Rightarrow> Some (round_half_even (a * 10 ^ n))
      | PlusInf \<Rightarrow> None
      | MinusInf \<Rightarrow> None
      | NaN \<Rightarrow> None)"

section \<open>ShippingService::ship\<close>

text \<open>
  What \<open>ship\<close> prints after the header (lines 105 to 122): the lines "<count>x <name>",
  one for each name at its first occurrence; the lines "<grams>g", one for each unit; and
  the line "Total package weight <kg>kg", whose number has one decimal and is kept in
  tenths of a kilogram.
\<close>

record notice =
  counts :: "(int \<times> string) list"
  grams :: "int option list"
  total_tenths :: "int option"

datatype exn = out_of_range

text \<open>
  The first loop (lines 110 to 116). \<open>nameToCount.at\<close> throws \<open>std::out_of_range\<close>
  on a missing key, which is the result \<open>None\<close>.
\<close>

fun count_lines :: "shippable list \<Rightarrow> (string \<rightharpoonup> int) \<Rightarrow> string list \<Rightarrow> (int \<times> string) list option" where
  "count_lines [] nameToCount printed = Some []"
| "count_lines (item # rest) nameToCount printed =
     (if getName item \<notin> set printed then
        (case nameToCount (getName item) of
           None \<Rightarrow> None
         | Some count \<Rightarrow>
             map_option ((#) (count, getName item))
               (count_lines rest nameToCount (getName item # printed)))
      else count_lines rest nameToCount printed)"

text \<open>The second loop (lines 117 to 120): the lines printed and the weight summed.\<close>

fun weight_lines :: "shippable list \<Rightarrow> int option list \<times> double \<Rightarrow> int option list \<times> double" where
  "weight_lines [] (printed, totalWeight) = (printed, totalWeight)"
| "weight_lines (item # rest) (printed, totalWeight) =
     weight_lines rest
       (printed @ [fixed 0 (fmul (getWeight item) (int_to_double 1000))],
        fadd totalWeight (getWeight item))"

definition ship :: "shippable list \<Rightarrow> (string \<rightharpoonup> int) \<Rightarrow> exn + notice option" where
  "ship shippables nameToCount =
     (if shippables = [] then Inr None
      else case count_lines shippables nameToCount [] of
             None \<Rightarrow> Inl out_of_range
           | Some cs \<Rightarrow>
               (case weight_lines shippables ([], Finite 0) of
                  (gs, totalWeight) \<Rightarrow>
                    Inr (Some \<lparr>counts = cs, grams = gs, total_tenths = fixed 1 totalWeight\<rparr>)))"

section \<open>checkout\<close>

text \<open>
  The first loop of \<open>checkout\<close> (lines 135 to 153) over the entries of the cart, with the
  variables \<open>subtotal\<close>, \<open>shippables\<close> and \<open>nameToCount\<close> it updates. An early
  \<open>return\<close> is the result \<open>Inl\<close>. The test \<open>isShippable()\<close> of line 147 and the cast
  of line 149 are one case distinction on \<open>as_shippable\<close>; the inner loop pushes the same
  pointer \<open>qty\<close> times, and no time at all when \<open>qty\<close> is not positive.
\<close>

fun scan :: "time_t \<Rightarrow> store \<Rightarrow> (addr \<times> int) list \<Rightarrow>
    double \<times> shippable list \<times> (string \<rightharpoonup> int) \<Rightarrow>
    failure + double \<times> shippable list \<times> (string \<rightharpoonup> int)" where
  "scan now h [] (subtotal, shippables, nameToCount) = Inr (subtotal, shippables, nameToCount)"
| "scan now h ((product, qty) # entries) (subtotal, shippables, nameToCount) =
     (if isExpired now (h product) then Inl (ExpiredProduct (name (h product)))
      else if qty > quantity (h product) then Inl (InsufficientStock (name (h product)))
      else scan now h entries
             (fadd subtotal (fmul (price (h product)) (int_to_double qty)),
              (case as_shippable (h product) of
                 None \<Rightarrow> shippables
               | Some item \<Rightarrow> shippables @ replicate (nat qty) item),
              (case as_shippable (h product) of
                 None \<Rightarrow> nameToCount
               | Some item \<Rightarrow> nameToCount(name (h product) \<mapsto> qty))))"

text \<open>Lines 154 and 155, and line 156.\<close>

definition total_weight :: "shippable list \<Rightarrow> double" where
  "total_weight shippables =
     foldl (\<lambda>totalWeight item. fadd totalWeight (getWeight item)) (Finite 0) shippables"

definition shipping_fee :: "double \<Rightarrow> double" where
  "shipping_fee totalWeight = fmul (fceil (fmul totalWeight (int_to_double 10))) (int_to_double 3)"

text \<open>
  The receipt (lines 165 to 176): the lines "<qty>x <name> <amount>", then subtotal,
  shipping, amount and balance.
\<close>

record receipt =
  lines :: "(int \<times> string \<times> int option) list"
  r_subtotal :: "int option"
  r_shipping :: "int option"
  r_amount :: "int option"
  r_balance :: "int option"

definition receipt_line :: "store \<Rightarrow> addr \<times> int \<Rightarrow> int \<times> string \<times> int option" where
  "receipt_line h entry =
     (snd entry, name (h (fst entry)),
      static_cast_int (fmul (price (h (fst entry))) (int_to_double (snd entry))))"

text \<open>The last loop (lines 177 to 179).\<close>

fun reduce_all :: "(addr \<times> int) list \<Rightarrow> store \<Rightarrow> store" where
  "reduce_all [] h = h"
| "reduce_all ((product, qty) # entries) h =
     reduce_all entries (h(product := reduceQuantity qty (h product)))"

text \<open>
  What a call of \<open>checkout\<close> ends with: an error message, an exception that leaves it, or
  the shipment notice (if one was printed) and the receipt.
\<close>

datatype outcome =
    Failed failure
  | Thrown exn
  | Completed "notice option" receipt

definition checkout :: "time_t \<Rightarrow> store \<Rightarrow> customer \<Rightarrow> cart \<Rightarrow> outcome \<times> store \<times> customer \<times> cart" where
  "checkout now h customer cart =
     (if isEmpty cart then (Failed EmptyCart, h, customer, cart)
      else case scan now h (items cart) (Finite 0, [], Map.empty) of
        Inl e \<Rightarrow> (Failed e, h, customer, cart)
      | Inr (subtotal, shippables, nameToCount) \<Rightarrow>
          (let totalWeight = total_weight shippables;
               shipping = shipping_fee totalWeight;
               total = fadd subtotal shipping
           in if flt (balance customer) total then (Failed InsufficientBalance, h, customer, cart)
              else case (if shippables \<noteq> [] then ship shippables nameToCount else Inr None) of
                Inl x \<Rightarrow> (Thrown x, h, customer, cart)
              | Inr shipment \<Rightarrow>
                  (let customer' = deductBalance total customer;
                       printed = \<lparr>lines = map (receipt_line h) (items cart),
                                  r_subtotal = static_cast_int subtotal,
                                  r_shipping = static_cast_int shipping,
                                  r_amount = static_cast_int total,
                                  r_balance = static_cast_int (balance customer')\<rparr>
                   in (Completed shipment printed, reduce_all (items cart) h, customer', clear cart))))"


section \<open>The objects of main\<close>

text \<open>
  The products and the customer that \<open>main\<close> creates (lines 196 to 203), at consecutive
  addresses. The prices and the balance are integers, converted exactly; the weights
  are the doubles nearest to the decimal literals. The expiry date \<open>makeDate(2025, 12, 31)\<close> is written as the seconds since
  the epoch (at midnight UTC). The runs below read the clock at 1751328000, in July 2025,
  or at 1767225600, the first day of 2026, when the cheese and the biscuits have expired.
\<close>

definition cheese :: product where
  "cheese = \<lparr>name = ''Cheese'', price = Finite 100, quantity = 5,
     variety = ExpirableShippableItem 1767139200 (round_to_double (4 / 10))\<rparr>"

definition biscuits :: product where
  "biscuits = \<lparr>name = ''Biscuits'', price = Finite 150, quantity = 2,
     variety = ExpirableShippableItem 1767139200 (round_to_double (7 / 10))\<rparr>"

definition tv :: product where
  "tv = \<lparr>name = ''TV'', price = Finite 150, quantity = 3, variety = ShippableItem (Finite 7)\<rparr>"

definition mobile :: product where
  "mobile = \<lparr>name = ''Mobile'', price = Finite 200, quantity = 10, variety = SimpleProduct\<rparr>"

definition scratchCard :: product where
  "scratchCard = \<lparr>name = ''ScratchCard'', price = Finite 50, quantity = 20, variety = SimpleProduct\<rparr>"

definition catalog :: store where
  "catalog = (\<lambda>a. if a = 0 then cheese else if a = 1 then biscuits else if a = 2 then tv
                  else if a = 3 then mobile else scratchCard)"

definition ali :: customer where
  "ali = \<lparr>customer_name = ''Ali'', balance = Finite 1000\<rparr>"

section \<open>The terms of the specification\<close>

text \<open>
  The shipment units of a cart: every line whose product is shippable, expanded into as
  many units as its quantity, each with the product's name and weight.
\<close>

definition shipment_units :: "store \<Rightarrow> (addr \<times> int) list \<Rightarrow> shippable list" where
  "shipment_units h entries =
     concat (map (\<lambda>(product, qty).
        case as_shippable (h product) of None \<Rightarrow> [] | Some item \<Rightarrow> replicate (nat qty) item) entries)"

text \<open>
  The sum of a list of doubles, added one after the other from 0.0 in \<open>double\<close>
  arithmetic, as a loop with \<open>+=\<close> does.
\<close>

definition double_sum :: "double list \<Rightarrow> double" where
  "double_sum xs = foldl fadd (Finite 0) xs"

text \<open>
  Unit price times quantity of a line; subtotal, weight and total of a cart, all in
  \<open>double\<close> arithmetic.
\<close>

definition line_total :: "store \<Rightarrow> addr \<times> int \<Rightarrow> double" where
  "line_total h entry = fmul (price (h (fst entry))) (int_to_double (snd entry))"

definition subtotal_of :: "store \<Rightarrow> cart \<Rightarrow> double" where
  "subtotal_of h c = double_sum (map (line_total h) (items c))"

definition weight_of :: "store \<Rightarrow> cart \<Rightarrow> double" where
  "weight_of h c = double_sum (map getWeight (shipment_units h (items c)))"

definition total_of :: "store \<Rightarrow> cart \<Rightarrow> double" where
  "total_of h c = fadd (subtotal_of h c) (shipping_fee (weight_of h c))"

text \<open>A line passes validation: its product is not expired and its quantity is in stock.\<close>

definition passes :: "time_t \<Rightarrow> store \<Rightarrow> addr \<times> int \<Rightarrow> bool" where
  "passes now h entry = (\<not> isExpired now (h (fst entry)) \<and> snd entry \<le> quantity (h (fst entry)))"

text \<open>
  The invariant of \<open>std::map\<close>: the keys are strictly ascending, so each occurs once.
\<close>

definition wf_cart :: "cart \<Rightarrow> bool" where
  "wf_cart c = sorted_wrt (<) (map fst (items c))"

section \<open>Evaluation\<close>

text \<open>
  Floor and ceiling of a fraction of numerals, for the evaluation of concrete runs. The
  runs are evaluated by rewriting with the definitions, without case splits on
  \<open>if\<close>: every condition of a concrete run is decided.
\<close>

lemma floor_numeral_fraction: "\<lfloor>numeral a / numeral b :: rat\<rfloor> = numeral a div numeral b"
  using floor_divide_of_int_eq [of "numeral a" "numeral b", where ?'a = rat] by simp

lemma floor_neg_numeral_fraction: "\<lfloor>- (numeral a / numeral b) :: rat\<rfloor> = - numeral a div numeral b"
  using floor_divide_of_int_eq [of "- numeral a" "numeral b", where ?'a = rat] by simp

lemma ceiling_numeral_fraction: "\<lceil>numeral a / numeral b :: rat\<rceil> = - (- numeral a div numeral b)"
  by (simp add: ceiling_def floor_neg_numeral_fraction)

lemma ceiling_neg_numeral_fraction: "\<lceil>- (numeral a / numeral b) :: rat\<rceil> = - (numeral a div numeral b)"
  by (simp add: ceiling_def floor_numeral_fraction)

lemma floor_one_fraction: "\<lfloor>1 / numeral b :: rat\<rfloor> = 1 div numeral b"
  using floor_divide_of_int_eq [of 1 "numeral b", where ?'a = rat] by simp

lemma floor_neg_one_fraction: "\<lfloor>- (1 / numeral b) :: rat\<rfloor> = - 1 div numeral b"
  using floor_divide_of_int_eq [of "- 1" "numeral b", where ?'a = rat] by simp

lemma ceiling_one_fraction: "\<lceil>1 / numeral b :: rat\<rceil> = - (- 1 div numeral b)"
  by (simp add: ceiling_def floor_neg_one_fraction)

lemma ceiling_neg_one_fraction: "\<lceil>- (1 / numeral b) :: rat\<rceil> = - (1 div numeral b)"
  by (simp add: ceiling_def floor_one_fraction)

lemmas fraction_simps = floor_numeral_fraction floor_neg_numeral_fraction
  ceiling_numeral_fraction ceiling_neg_numeral_fraction
  floor_one_fraction floor_neg_one_fraction ceiling_one_fraction ceiling_neg_one_fraction

lemmas scenario_defs = cheese_def biscuits_def tv_def mobile_def scratchCard_def catalog_def ali_def

lemmas double_defs = round_to_double_def exponent_def pow2_def bits.simps round_half_even_def
  fsub_def infinity_def int_to_double_def Let_def fraction_simps

lemmas run_defs = add_def isExpired_def as_shippable_def isShippable_def reduceQuantity_def
  deductBalance_def isEmpty_def clear_def static_cast_int_def fixed_def
  ship_def total_weight_def shipping_fee_def receipt_line_def checkout_def double_defs

text \<open>
  \<open>replicate\<close> on a numeral, and the doubles that the weight literals 0.4 and 0.7 of
  \<open>main\<close> denote.
\<close>

lemma replicate_numeral: "replicate (numeral k) x = x # replicate (pred_numeral k) x"
  by (simp add: numeral_eq_Suc)

lemma weight_literals:
  "round_to_double (2 / 5) = Finite (3602879701896397 / 9007199254740992)"
  "round_to_double (7 / 10) = Finite (3152519739159347 / 4503599627370496)"
  by (simp_all add: double_defs split del: if_split)

text \<open>
  Some values of the arithmetic: 0.1, 0.1 + 0.2 and 0.1 * 3 (both 0.30000000000000004),
  and two ties at the 54th bit, which go to the even significand.
\<close>

lemma binary64_examples:
  "round_to_double (1 / 10) = Finite (3602879701896397 / 36028797018963968)"
  "fadd (round_to_double (1 / 10)) (round_to_double (2 / 10)) =
     Finite (1351079888211149 / 4503599627370496)"
  "fmul (round_to_double (1 / 10)) (int_to_double 3) = Finite (1351079888211149 / 4503599627370496)"
  "round_to_double (2 ^ 53 + 1) = Finite (2 ^ 53)"
  "round_to_double (2 ^ 53 + 3) = Finite (2 ^ 53 + 4)"
  by (simp_all add: double_defs split del: if_split)

section \<open>Iteration in checkout and ship\<close>

lemma shipment_units_Nil: "shipment_units h [] = []"
  by (simp add: shipment_units_def)

lemma shipment_units_Cons:
  "shipment_units h ((p, q) # es) =
     (case as_shippable (h p) of None \<Rightarrow> [] | Some item \<Rightarrow> replicate (nat q) item) @ shipment_units h es"
  by (simp add: shipment_units_def)

lemma scan_Inr:
  "scan now h es (sub, shp, n2c) = Inr (sub', shp', n2c') \<Longrightarrow>
     sub' = foldl fadd sub (map (line_total h) es) \<and> shp' = shp @ shipment_units h es"
proof (induction es arbitrary: sub shp n2c)
  case Nil
  then show ?case by (simp add: shipment_units_Nil)
next
  case (Cons e es)
  obtain p q where e: "e = (p, q)" by (cases e)
  from Cons.prems e have ok: "\<not> isExpired now (h p)" "\<not> q > quantity (h p)"
    by (auto split: if_splits)
  show ?case
  proof (cases "as_shippable (h p)")
    case None
    with Cons.prems e ok have "scan now h es (fadd sub (fmul (price (h p)) (int_to_double q)), shp, n2c) = Inr (sub', shp', n2c')"
      by simp
    from Cons.IH [OF this] None e show ?thesis
      by (simp add: shipment_units_Cons line_total_def)
  next
    case (Some item)
    with Cons.prems e ok have "scan now h es (fadd sub (fmul (price (h p)) (int_to_double q)), shp @ replicate (nat q) item,
        n2c(name (h p) \<mapsto> q)) = Inr (sub', shp', n2c')"
      by simp
    from Cons.IH [OF this] Some e show ?thesis
      by (simp add: shipment_units_Cons line_total_def)
  qed
qed

lemma scan_passes:
  "(\<exists>r. scan now h es acc = Inr r) \<longleftrightarrow> (\<forall>e \<in> set es. passes now h e)"
proof (induction es arbitrary: acc)
  case Nil
  show ?case by (cases acc) simp
next
  case (Cons e es)
  obtain p q where e: "e = (p, q)" by (cases e)
  obtain sub shp n2c where acc: "acc = (sub, shp, n2c)" by (cases acc)
  show ?case
    unfolding e acc using Cons.IH by (auto simp: passes_def)
qed

lemma scan_stops:
  assumes "\<forall>e \<in> set pre. passes now h e" and "\<not> passes now h (p, q)"
  shows "scan now h (pre @ (p, q) # post) acc =
     Inl (if isExpired now (h p) then ExpiredProduct (name (h p))
          else InsufficientStock (name (h p)))"
  using assms(1)
proof (induction pre arbitrary: acc)
  case Nil
  obtain sub shp n2c where acc: "acc = (sub, shp, n2c)" by (cases acc)
  show ?case unfolding acc using assms(2) by (auto simp: passes_def)
next
  case (Cons e pre)
  obtain p' q' where e: "e = (p', q')" by (cases e)
  obtain sub shp n2c where acc: "acc = (sub, shp, n2c)" by (cases acc)
  from Cons.prems e have ok: "\<not> isExpired now (h p')" "\<not> q' > quantity (h p')"
    by (auto simp: passes_def)
  from Cons.prems have "\<forall>e \<in> set pre. passes now h e" by simp
  from Cons.IH [OF this] show ?case
    unfolding acc e using ok by simp
qed

lemma scan_names:
  "scan now h es (sub, shp, n2c) = Inr (sub', shp', n2c') \<Longrightarrow>
     getName ` set shp \<subseteq> dom n2c \<Longrightarrow> getName ` set shp' \<subseteq> dom n2c'"
proof (induction es arbitrary: sub shp n2c)
  case Nil
  then show ?case by simp
next
  case (Cons e es)
  obtain p q where e: "e = (p, q)" by (cases e)
  from Cons.prems e have ok: "\<not> isExpired now (h p)" "\<not> q > quantity (h p)"
    by (auto split: if_splits)
  show ?case
  proof (cases "as_shippable (h p)")
    case None
    with Cons.prems e ok have "scan now h es (fadd sub (fmul (price (h p)) (int_to_double q)), shp, n2c) = Inr (sub', shp', n2c')"
      by simp
    from Cons.IH [OF this Cons.prems(2)] show ?thesis .
  next
    case (Some item)
    then have nm: "getName item = name (h p)"
      by (auto simp: as_shippable_def split: variety.splits)
    from Some Cons.prems e ok have *: "scan now h es (fadd sub (fmul (price (h p)) (int_to_double q)), shp @ replicate (nat q) item,
        n2c(name (h p) \<mapsto> q)) = Inr (sub', shp', n2c')"
      by simp
    have "getName ` set (shp @ replicate (nat q) item) \<subseteq> dom (n2c(name (h p) \<mapsto> q))"
      using Cons.prems(2) nm by auto
    from Cons.IH [OF * this] show ?thesis .
  qed
qed

lemma count_lines_Some:
  "getName ` set shp \<subseteq> dom n2c \<Longrightarrow> \<exists>cs. count_lines shp n2c printed = Some cs"
proof (induction shp arbitrary: printed)
  case Nil
  show ?case by simp
next
  case (Cons item rest)
  then obtain count where c: "n2c (getName item) = Some count" by auto
  from Cons.prems have "getName ` set rest \<subseteq> dom n2c" by auto
  from Cons.IH [OF this] c show ?case by auto
qed

lemma weight_lines_eq:
  "weight_lines shp (printed, w) =
     (printed @ map (\<lambda>item. fixed 0 (fmul (getWeight item) (int_to_double 1000))) shp,
      foldl fadd w (map getWeight shp))"
  by (induction shp arbitrary: printed w) simp_all

lemma total_weight_sum: "total_weight shp = double_sum (map getWeight shp)"
  by (simp add: total_weight_def double_sum_def foldl_map)

lemma ship_no_throw:
  "getName ` set shp \<subseteq> dom n2c \<Longrightarrow> shp \<noteq> [] \<Longrightarrow>
     ship shp n2c = Inr (Some \<lparr>counts = the (count_lines shp n2c []),
        grams = map (\<lambda>item. fixed 0 (fmul (getWeight item) (int_to_double 1000))) shp,
        total_tenths = fixed 1 (double_sum (map getWeight shp))\<rparr>)"
  using count_lines_Some [of shp n2c "[]"]
  by (auto simp: ship_def weight_lines_eq double_sum_def)

lemma reduce_all_other: "p \<notin> fst ` set es \<Longrightarrow> reduce_all es h p = h p"
  by (induction es arbitrary: h) auto

lemma reduce_all_entry:
  "distinct (map fst es) \<Longrightarrow> (p, q) \<in> set es \<Longrightarrow> reduce_all es h p = reduceQuantity q (h p)"
proof (induction es arbitrary: h)
  case Nil
  then show ?case by simp
next
  case (Cons e es)
  obtain p' q' where e: "e = (p', q')" by (cases e)
  show ?case
  proof (cases "(p, q) = e")
    case True
    with Cons.prems e have "p \<notin> fst ` set es" by auto
    from reduce_all_other [OF this] True e show ?thesis by simp
  next
    case False
    with Cons.prems e have in_es: "(p, q) \<in> set es" and ne: "p \<noteq> p'" and d: "distinct (map fst es)"
      by (auto simp: image_iff)
    from Cons.IH [OF d in_es] ne e show ?thesis by simp
  qed
qed

section \<open>The map of the cart\<close>

lemma set_map_plus: "fst ` set (map_plus k q es) = insert k (fst ` set es)"
proof (induction es)
  case Nil
  show ?case by simp
next
  case (Cons e es)
  obtain k' v where e: "e = (k', v)" by (cases e)
  show ?case unfolding e using Cons.IH by (simp add: insert_commute)
qed

lemma sorted_map_plus:
  "sorted_wrt (<) (map fst es) \<Longrightarrow> sorted_wrt (<) (map fst (map_plus k q es))"
proof (induction es)
  case Nil
  show ?case by simp
next
  case (Cons e es)
  obtain k' v where e: "e = (k', v)" by (cases e)
  from Cons.prems have tl: "sorted_wrt (<) (map fst es)" and hd: "\<forall>x \<in> fst ` set es. k' < x"
    unfolding e by auto
  have "\<forall>x \<in> fst ` set (map_plus k q es). k' < x" if "k' < k"
    using hd that unfolding set_map_plus by auto
  with Cons.IH [OF tl] Cons.prems show ?case
    unfolding e by (auto simp: image_iff)
qed

lemma map_of_map_plus:
  "sorted_wrt (<) (map fst es) \<Longrightarrow>
   map_of (map_plus k q es) = (map_of es)(k \<mapsto> (case map_of es k of None \<Rightarrow> 0 | Some v \<Rightarrow> v) + q)"
proof (induction es)
  case Nil
  show ?case by simp
next
  case (Cons e es)
  obtain k' v where e: "e = (k', v)" by (cases e)
  from Cons.prems have tl: "sorted_wrt (<) (map fst es)" and hd: "\<forall>x \<in> fst ` set es. k' < x"
    unfolding e by auto
  have notin: "map_of es k = None" if "k < k'"
  proof -
    have "k \<notin> fst ` set es" using hd that by auto
    then show ?thesis by (simp add: map_of_eq_None_iff)
  qed
  show ?case
    unfolding e using Cons.IH [OF tl] notin by (auto simp: fun_eq_iff)
qed

lemma add_all_keys:
  "add_all now h calls c = (None, h', c') \<Longrightarrow>
     fst ` set (items c') = fst ` set calls \<union> fst ` set (items c) \<and>
     (wf_cart c \<longrightarrow> wf_cart c') \<and> h' = h"
proof (induction calls arbitrary: c)
  case Nil
  then show ?case by simp
next
  case (Cons call calls)
  obtain p q where call: "call = (p, q)" by (cases call)
  from Cons.prems call have
    step: "add now h p q c = (None, h, c\<lparr>items := map_plus p q (items c)\<rparr>)"
    by (auto simp: add_def split: if_splits)
  with Cons.prems call have "add_all now h calls (c\<lparr>items := map_plus p q (items c)\<rparr>) = (None, h', c')"
    by simp
  from Cons.IH [OF this] show ?case
    unfolding call by (auto simp: set_map_plus wf_cart_def sorted_map_plus)
qed

lemma sorted_keys_unique:
  "sorted_wrt (<) (ks :: nat list) \<Longrightarrow> ks = sorted_list_of_set (set ks)"
  by (simp add: sorted_list_of_set.idem_if_sorted_distinct strict_sorted_iff)

section \<open>Numbers and the paths of checkout\<close>

lemma static_cast_int_toward_zero:
  assumes "static_cast_int x = Some n"
  shows "\<exists>a. x = Finite a \<and> \<bar>of_int n\<bar> \<le> \<bar>a\<bar> \<and> \<bar>a - of_int n\<bar> < 1"
proof -
  from assms obtain a where x: "x = Finite a"
    by (cases x) (simp_all add: static_cast_int_def)
  show ?thesis
  proof (cases "a < 0")
    case True
    define c :: rat where "c = of_int \<lceil>a\<rceil>"
    from assms x True have eq: "of_int n = c"
      by (auto simp: static_cast_int_def Let_def c_def split: if_splits)
    have "\<lceil>a\<rceil> \<le> 0" using True by (simp add: ceiling_le_zero)
    then have "c \<le> 0" unfolding c_def by simp
    moreover have "a \<le> c" "c < a + 1"
      unfolding c_def using ceiling_correct [of a] by linarith+
    ultimately have "\<bar>of_int n\<bar> \<le> \<bar>a\<bar> \<and> \<bar>a - of_int n\<bar> < 1"
      unfolding eq by linarith
    with x show ?thesis by blast
  next
    case False
    define c :: rat where "c = of_int \<lfloor>a\<rfloor>"
    from assms x False have eq: "of_int n = c"
      by (auto simp: static_cast_int_def Let_def c_def split: if_splits)
    have "0 \<le> \<lfloor>a\<rfloor>" using False by simp
    then have "0 \<le> c" unfolding c_def by simp
    moreover have "c \<le> a" "a < c + 1"
      unfolding c_def using floor_correct [of a] by linarith+
    ultimately have "\<bar>of_int n\<bar> \<le> \<bar>a\<bar> \<and> \<bar>a - of_int n\<bar> < 1"
      unfolding eq by linarith
    with x show ?thesis by blast
  qed
qed

lemma static_cast_int_nonneg:
  "0 \<le> a \<Longrightarrow> static_cast_int (Finite a) = Some n \<Longrightarrow> a - of_int n = frac a"
  by (auto simp: static_cast_int_def Let_def frac_def split: if_splits)

lemma pow2_pos: "0 < pow2 k"
  by (simp add: pow2_def)

lemma round_half_even_nonneg: "0 \<le> x \<Longrightarrow> 0 \<le> round_half_even x"
proof -
  assume "0 \<le> x"
  then have "0 \<le> \<lfloor>x\<rfloor>" by simp
  then show ?thesis by (simp add: round_half_even_def Let_def)
qed

lemma round_to_double_nonneg:
  assumes "0 \<le> x" and "round_to_double x = Finite v"
  shows "0 \<le> v"
proof (cases "x = 0")
  case True
  with assms(2) show ?thesis by (simp add: round_to_double_def)
next
  case False
  define u where "u = pow2 (max (exponent x) (- 1022) - 52)"
  have u: "0 < u" unfolding u_def by (rule pow2_pos)
  with assms(1) have "0 \<le> x / u" by simp
  then have "0 \<le> round_half_even (x / u)" by (rule round_half_even_nonneg)
  with u have nn: "0 \<le> of_int (round_half_even (x / u)) * u" by simp
  from assms(2) False have "v = of_int (round_half_even (x / u)) * u"
    by (simp add: round_to_double_def Let_def u_def split: if_splits)
  with nn show ?thesis by simp
qed

lemma fsub_Finite:
  assumes "fsub x y = Finite v"
  shows "\<exists>a b. x = Finite a \<and> y = Finite b \<and> round_to_double (a - b) = Finite v"
  using assms by (cases x; cases y) (simp_all add: fsub_def)

lemma round_half_even_nearest: "\<bar>of_int (round_half_even x) - x\<bar> \<le> 1 / 2"
proof -
  define f :: rat where "f = of_int \<lfloor>x\<rfloor>"
  have bounds: "f \<le> x" "x < f + 1"
    unfolding f_def using floor_correct [of x] by linarith+
  consider "x - f < 1 / 2" | "1 / 2 < x - f" | "x - f = 1 / 2" by linarith
  then show ?thesis
  proof cases
    case 1
    then have "of_int (round_half_even x) = f"
      by (simp add: round_half_even_def Let_def f_def)
    with 1 bounds show ?thesis by linarith
  next
    case 2
    then have "of_int (round_half_even x) = f + 1"
      by (simp add: round_half_even_def Let_def f_def)
    with 2 bounds show ?thesis by linarith
  next
    case 3
    then have "of_int (round_half_even x) = f \<or> of_int (round_half_even x) = f + 1"
      by (simp add: round_half_even_def Let_def f_def)
    with 3 show ?thesis by linarith
  qed
qed

lemma checkout_empty:
  "items c = [] \<Longrightarrow> checkout now h cu c = (Failed EmptyCart, h, cu, c)"
  by (simp add: checkout_def isEmpty_def)

lemma checkout_scan_Inl:
  "items c \<noteq> [] \<Longrightarrow> scan now h (items c) (Finite 0, [], Map.empty) = Inl e \<Longrightarrow>
     checkout now h cu c = (Failed e, h, cu, c)"
  by (simp add: checkout_def isEmpty_def)

lemma scan_result:
  assumes "\<forall>e \<in> set es. passes now h e"
  shows "\<exists>n2c. scan now h es (Finite 0, [], Map.empty) =
            Inr (double_sum (map (line_total h) es), shipment_units h es, n2c) \<and>
          getName ` set (shipment_units h es) \<subseteq> dom n2c"
proof -
  from assms scan_passes [of now h es "(Finite 0, [], Map.empty)"]
  obtain r where r: "scan now h es (Finite 0, [], Map.empty) = Inr r" by blast
  obtain sub shp n2c where "r = (sub, shp, n2c)" by (cases r)
  with r have eq: "scan now h es (Finite 0, [], Map.empty) = Inr (sub, shp, n2c)" by simp
  from scan_Inr [OF eq] have "sub = double_sum (map (line_total h) es)" "shp = shipment_units h es"
    by (simp_all add: double_sum_def)
  moreover from scan_names [OF eq] have "getName ` set shp \<subseteq> dom n2c" by simp
  ultimately show ?thesis using eq by blast
qed

lemma checkout_no_balance:
  assumes "items c \<noteq> []" "\<forall>e \<in> set (items c). passes now h e" "flt (balance cu) (total_of h c)"
  shows "checkout now h cu c = (Failed InsufficientBalance, h, cu, c)"
proof -
  from scan_result [OF assms(2)] obtain n2c where
    "scan now h (items c) (Finite 0, [], Map.empty) =
       Inr (double_sum (map (line_total h) (items c)), shipment_units h (items c), n2c)"
    by blast
  with assms(1,3) show ?thesis
    by (simp add: checkout_def isEmpty_def total_of_def subtotal_of_def weight_of_def
        total_weight_sum shipping_fee_def)
qed

lemma checkout_commit:
  assumes "items c \<noteq> []" "\<forall>e \<in> set (items c). passes now h e" "\<not> flt (balance cu) (total_of h c)"
  shows "\<exists>shipment.
    checkout now h cu c =
      (Completed shipment
         \<lparr>lines = map (receipt_line h) (items c),
          r_subtotal = static_cast_int (subtotal_of h c),
          r_shipping = static_cast_int (shipping_fee (weight_of h c)),
          r_amount = static_cast_int (total_of h c),
          r_balance = static_cast_int (fsub (balance cu) (total_of h c))\<rparr>,
       reduce_all (items c) h, cu\<lparr>balance := fsub (balance cu) (total_of h c)\<rparr>, c\<lparr>items := []\<rparr>) \<and>
    (shipment = None \<longleftrightarrow> shipment_units h (items c) = []) \<and>
    (\<forall>n. shipment = Some n \<longrightarrow>
        grams n = map (\<lambda>item. fixed 0 (fmul (getWeight item) (int_to_double 1000))) (shipment_units h (items c)) \<and>
        total_tenths n = fixed 1 (weight_of h c))"
proof -
  from scan_result [OF assms(2)] obtain n2c where
    sc: "scan now h (items c) (Finite 0, [], Map.empty) =
       Inr (double_sum (map (line_total h) (items c)), shipment_units h (items c), n2c)"
    and nm: "getName ` set (shipment_units h (items c)) \<subseteq> dom n2c"
    by blast
  show ?thesis
  proof (cases "shipment_units h (items c) = []")
    case True
    with assms(1,3) sc show ?thesis
      by (simp add: checkout_def isEmpty_def total_of_def subtotal_of_def weight_of_def
          total_weight_sum shipping_fee_def deductBalance_def clear_def Let_def)
  next
    case False
    from ship_no_throw [OF nm False] False assms(1,3) sc show ?thesis
      by (simp add: checkout_def isEmpty_def total_of_def subtotal_of_def weight_of_def
          total_weight_sum shipping_fee_def deductBalance_def clear_def Let_def)
  qed
qed

lemma checkout_Completed:
  assumes "checkout now h cu c = (Completed shipment r, s)"
  shows "items c \<noteq> [] \<and> (\<forall>e \<in> set (items c). passes now h e) \<and> \<not> flt (balance cu) (total_of h c)"
proof (intro conjI)
  show ne: "items c \<noteq> []"
    using assms checkout_empty [of c now h cu] by auto
  show ok: "\<forall>e \<in> set (items c). passes now h e"
  proof (rule ccontr)
    assume "\<not> (\<forall>e \<in> set (items c). passes now h e)"
    with scan_passes [of now h "items c" "(Finite 0, [], Map.empty)"]
    have "\<nexists>r. scan now h (items c) (Finite 0, [], Map.empty) = Inr r" by simp
    then obtain e where "scan now h (items c) (Finite 0, [], Map.empty) = Inl e"
      by (cases "scan now h (items c) (Finite 0, [], Map.empty)") auto
    from checkout_scan_Inl [OF ne this] assms show False by simp
  qed
  show "\<not> flt (balance cu) (total_of h c)"
    using checkout_no_balance [OF ne ok] assms by auto
qed

lemma checkout_receipt:
  assumes "checkout now h cu c = (Completed shipment r, h', cu', c')"
  shows "r = \<lparr>lines = map (receipt_line h) (items c),
            r_subtotal = static_cast_int (subtotal_of h c),
            r_shipping = static_cast_int (shipping_fee (weight_of h c)),
            r_amount = static_cast_int (total_of h c),
            r_balance = static_cast_int (fsub (balance cu) (total_of h c))\<rparr> \<and>
         cu' = cu\<lparr>balance := fsub (balance cu) (total_of h c)\<rparr> \<and>
         \<not> flt (balance cu) (total_of h c)"
proof -
  from checkout_Completed [OF assms] have pre:
    "items c \<noteq> []" "\<forall>e \<in> set (items c). passes now h e" "\<not> flt (balance cu) (total_of h c)"
    by simp_all
  from checkout_commit [OF pre] assms pre(3) show ?thesis by auto
qed

lemma checkout_never_throws: "fst (checkout now h cu c) \<noteq> Thrown x"
proof (cases "items c = []")
  case True
  then show ?thesis by (simp add: checkout_empty)
next
  case ne: False
  show ?thesis
  proof (cases "\<forall>e \<in> set (items c). passes now h e")
    case False
    with scan_passes [of now h "items c" "(Finite 0, [], Map.empty)"]
    obtain e where "scan now h (items c) (Finite 0, [], Map.empty) = Inl e"
      by (cases "scan now h (items c) (Finite 0, [], Map.empty)") auto
    from checkout_scan_Inl [OF ne this] show ?thesis by simp
  next
    case ok: True
    show ?thesis
    proof (cases "flt (balance cu) (total_of h c)")
      case True
      from checkout_no_balance [OF ne ok this] show ?thesis by simp
    next
      case False
      from checkout_commit [OF ne ok this] show ?thesis by auto
    qed
  qed
qed


section \<open>The claims\<close>

text \<open>
  C1. A call of \<open>checkout\<close> that fails, whatever the reason (the cart is empty, a product
  is expired, a line exceeds the stock, the balance does not cover the total), leaves the
  stock of every product, the customer's balance and the cart's contents as they were
  before the call.
\<close>

theorem checkout_failure_atomic:
  "checkout now h customer cart = (Failed e, h', customer', cart') \<Longrightarrow>
     h' = h \<and> customer' = customer \<and> cart' = cart"
  by (auto simp: checkout_def Let_def split: if_splits sum.splits prod.splits)

text \<open>
  Scenario C of the specification: with a balance of 10 the cart of scenario A, whose total
  is 274, is refused and nothing changes.
\<close>

theorem checkout_failure_atomic_witness:
  "checkout 1751328000 catalog (ali\<lparr>balance := Finite 10\<rparr>) \<lparr>items = [(0, 2), (4, 1)]\<rparr> =
     (Failed InsufficientBalance, catalog, ali\<lparr>balance := Finite 10\<rparr>, \<lparr>items = [(0, 2), (4, 1)]\<rparr>)"
proof -
  obtain h' customer' cart' where run:
    "checkout 1751328000 catalog (ali\<lparr>balance := Finite 10\<rparr>) \<lparr>items = [(0, 2), (4, 1)]\<rparr> =
       (Failed InsufficientBalance, h', customer', cart')"
    by (simp add: run_defs scenario_defs weight_literals replicate_numeral split del: if_split)
  from checkout_failure_atomic [OF run] run show ?thesis by simp
qed



text \<open>
  C3, as stated, fails on the order of the lines. Biscuits (address 1) is added before
  cheese (address 0); at a time when both have expired, \<open>checkout\<close> reports the cheese,
  the second product added, and not the biscuits.
\<close>

theorem checkout_validation_order_counterexample:
  "add_all 1751328000 catalog [(1, 1), (0, 1)] \<lparr>items = []\<rparr> =
     (None, catalog, \<lparr>items = [(0, 1), (1, 1)]\<rparr>) \<and>
   isExpired 1767225600 (catalog 1) \<and>
   checkout 1767225600 catalog ali \<lparr>items = [(0, 1), (1, 1)]\<rparr> =
     (Failed (ExpiredProduct ''Cheese''), catalog, ali, \<lparr>items = [(0, 1), (1, 1)]\<rparr>) \<and>
   fst (checkout 1767225600 catalog ali \<lparr>items = [(0, 1), (1, 1)]\<rparr>) \<noteq>
     Failed (ExpiredProduct (name (catalog 1)))"
  by (simp add: run_defs scenario_defs weight_literals replicate_numeral split del: if_split)

text \<open>
  C3, amended. \<open>checkout\<close> first checks that the cart is not empty. It then visits the
  lines in the order of the cart's map, ascending product address, and on each line checks
  expiry first and stock second. It stops at the first line that fails a check: the failing
  line of least address decides the error, \<open>ExpiredProduct\<close> if that product is expired and
  \<open>InsufficientStock\<close> otherwise, and nothing has been changed.
\<close>

theorem checkout_validation_order:
  assumes "wf_cart cart"
  shows "(items cart = [] \<longrightarrow> checkout now h customer cart = (Failed EmptyCart, h, customer, cart)) \<and>
    ((p, q) \<in> set (items cart) \<and> (\<forall>e \<in> set (items cart). fst e < p \<longrightarrow> passes now h e) \<and>
      isExpired now (h p) \<longrightarrow>
        checkout now h customer cart = (Failed (ExpiredProduct (name (h p))), h, customer, cart)) \<and>
    ((p, q) \<in> set (items cart) \<and> (\<forall>e \<in> set (items cart). fst e < p \<longrightarrow> passes now h e) \<and>
      \<not> isExpired now (h p) \<and> quantity (h p) < q \<longrightarrow>
        checkout now h customer cart = (Failed (InsufficientStock (name (h p))), h, customer, cart))"
proof -
  have stop: "checkout now h customer cart =
      (Failed (if isExpired now (h p) then ExpiredProduct (name (h p))
               else InsufficientStock (name (h p))), h, customer, cart)"
    if mem: "(p, q) \<in> set (items cart)"
      and low: "\<forall>e \<in> set (items cart). fst e < p \<longrightarrow> passes now h e"
      and bad: "\<not> passes now h (p, q)"
  proof -
    from mem obtain pre post where split: "items cart = pre @ (p, q) # post"
      by (auto dest: split_list)
    from assms have "sorted_wrt (<) (map fst pre @ p # map fst post)"
      by (simp add: wf_cart_def split)
    then have "\<forall>e \<in> set pre. fst e < p"
      by (auto simp: sorted_wrt_append)
    with low split have "\<forall>e \<in> set pre. passes now h e" by auto
    from scan_stops [OF this bad, of post "(Finite 0, [], Map.empty)"] split
    have "scan now h (items cart) (Finite 0, [], Map.empty) =
        Inl (if isExpired now (h p) then ExpiredProduct (name (h p))
             else InsufficientStock (name (h p)))"
      by simp
    moreover from split have "items cart \<noteq> []" by simp
    ultimately show ?thesis by (rule checkout_scan_Inl [rotated])
  qed
  show ?thesis
  proof (intro conjI impI)
    assume "items cart = []"
    then show "checkout now h customer cart = (Failed EmptyCart, h, customer, cart)"
      by (rule checkout_empty)
  next
    assume a: "(p, q) \<in> set (items cart) \<and>
      (\<forall>e \<in> set (items cart). fst e < p \<longrightarrow> passes now h e) \<and> isExpired now (h p)"
    then have "\<not> passes now h (p, q)" by (simp add: passes_def)
    with stop a show "checkout now h customer cart =
        (Failed (ExpiredProduct (name (h p))), h, customer, cart)"
      by simp
  next
    assume a: "(p, q) \<in> set (items cart) \<and>
      (\<forall>e \<in> set (items cart). fst e < p \<longrightarrow> passes now h e) \<and>
      \<not> isExpired now (h p) \<and> quantity (h p) < q"
    then have "\<not> passes now h (p, q)" by (simp add: passes_def)
    with stop a show "checkout now h customer cart =
        (Failed (InsufficientStock (name (h p))), h, customer, cart)"
      by simp
  qed
qed

text \<open>
  An empty cart; a cart whose first line is both expired and above the stock; a cart whose
  second and third lines are above the stock.
\<close>

theorem checkout_validation_order_witness:
  "checkout 1751328000 catalog ali \<lparr>items = []\<rparr> = (Failed EmptyCart, catalog, ali, \<lparr>items = []\<rparr>) \<and>
   checkout 1767225600 catalog ali \<lparr>items = [(0, 6), (1, 1)]\<rparr> =
     (Failed (ExpiredProduct ''Cheese''), catalog, ali, \<lparr>items = [(0, 6), (1, 1)]\<rparr>) \<and>
   checkout 1751328000 catalog ali \<lparr>items = [(0, 2), (1, 3), (2, 4)]\<rparr> =
     (Failed (InsufficientStock ''Biscuits''), catalog, ali, \<lparr>items = [(0, 2), (1, 3), (2, 4)]\<rparr>)"
proof -
  have wf: "wf_cart \<lparr>items = []\<rparr>" "wf_cart \<lparr>items = [(0, 6), (1, 1)]\<rparr>"
    "wf_cart \<lparr>items = [(0, 2), (1, 3), (2, 4)]\<rparr>"
    by (simp_all add: wf_cart_def)
  have a: "checkout 1751328000 catalog ali \<lparr>items = []\<rparr> = (Failed EmptyCart, catalog, ali, \<lparr>items = []\<rparr>)"
    using checkout_validation_order [OF wf(1), of 1751328000 catalog ali 0 0] by simp
  have b: "checkout 1767225600 catalog ali \<lparr>items = [(0, 6), (1, 1)]\<rparr> =
     (Failed (ExpiredProduct ''Cheese''), catalog, ali, \<lparr>items = [(0, 6), (1, 1)]\<rparr>)"
    using checkout_validation_order [OF wf(2), of 1767225600 catalog ali 0 6]
    by (simp add: isExpired_def scenario_defs)
  have c: "checkout 1751328000 catalog ali \<lparr>items = [(0, 2), (1, 3), (2, 4)]\<rparr> =
     (Failed (InsufficientStock ''Biscuits''), catalog, ali, \<lparr>items = [(0, 2), (1, 3), (2, 4)]\<rparr>)"
    using checkout_validation_order [OF wf(3), of 1751328000 catalog ali 1 3]
    by (simp add: isExpired_def passes_def scenario_defs)
  from a b c show ?thesis by simp
qed

text \<open>
  C4, as stated, fails where two preconditions are violated at once: six units of the cheese,
  of which five are in stock, requested after its expiry date, raise \<open>ExpiredProduct\<close> and
  not \<open>InsufficientStock\<close>.
\<close>

theorem add_checks_counterexample:
  "quantity (catalog 0) < 6 \<and>
   add 1767225600 catalog 0 6 \<lparr>items = []\<rparr> =
     (Some (ExpiredProduct ''Cheese''), catalog, \<lparr>items = []\<rparr>) \<and>
   fst (add 1767225600 catalog 0 6 \<lparr>items = []\<rparr>) \<noteq> Some (InsufficientStock (name (catalog 0)))"
  by (simp add: run_defs scenario_defs weight_literals replicate_numeral split del: if_split)

text \<open>
  C4, amended. \<open>Cart::add\<close> fails with \<open>InvalidQuantity\<close> when the quantity is not
  positive; otherwise with \<open>ExpiredProduct\<close> when the product is expired; otherwise with
  \<open>InsufficientStock\<close> when the quantity exceeds the stock. A quantity above the stock
  always fails, with one of these errors. A failure leaves the cart unchanged. On success
  the quantity is added to the entry of the product, or a new entry is made, and the store
  is unchanged.
\<close>

theorem add_checks:
  assumes "wf_cart c"
  shows "(qty \<le> 0 \<longrightarrow> add now h p qty c = (Some InvalidQuantity, h, c)) \<and>
    (0 < qty \<and> isExpired now (h p) \<longrightarrow>
       add now h p qty c = (Some (ExpiredProduct (name (h p))), h, c)) \<and>
    (0 < qty \<and> \<not> isExpired now (h p) \<and> quantity (h p) < qty \<longrightarrow>
       add now h p qty c = (Some (InsufficientStock (name (h p))), h, c)) \<and>
    (quantity (h p) < qty \<longrightarrow> (\<exists>e. add now h p qty c = (Some e, h, c))) \<and>
    (0 < qty \<and> \<not> isExpired now (h p) \<and> qty \<le> quantity (h p) \<longrightarrow>
       (\<exists>c'. add now h p qty c = (None, h, c') \<and> wf_cart c' \<and>
          map_of (items c') =
            (map_of (items c))(p \<mapsto> (case map_of (items c) p of None \<Rightarrow> qty | Some v \<Rightarrow> v + qty))))"
proof -
  from assms have sorted: "sorted_wrt (<) (map fst (items c))"
    by (simp add: wf_cart_def)
  have acc: "map_of (map_plus p qty (items c)) =
      (map_of (items c))(p \<mapsto> (case map_of (items c) p of None \<Rightarrow> qty | Some v \<Rightarrow> v + qty))"
    unfolding map_of_map_plus [OF sorted] by (simp split: option.splits)
  have wf: "wf_cart (c\<lparr>items := map_plus p qty (items c)\<rparr>)"
    using sorted_map_plus [OF sorted] by (simp add: wf_cart_def)
  show ?thesis
    using acc wf by (simp add: add_def)
qed

text \<open>
  The three failures, an addition to the entry of the cheese, and a new entry for the
  scratch card.
\<close>

theorem add_checks_witness:
  "add 1751328000 catalog 2 0 \<lparr>items = [(0, 2)]\<rparr> = (Some InvalidQuantity, catalog, \<lparr>items = [(0, 2)]\<rparr>) \<and>
   add 1767225600 catalog 0 1 \<lparr>items = [(0, 2)]\<rparr> =
     (Some (ExpiredProduct ''Cheese''), catalog, \<lparr>items = [(0, 2)]\<rparr>) \<and>
   add 1751328000 catalog 0 10 \<lparr>items = [(0, 2)]\<rparr> =
     (Some (InsufficientStock ''Cheese''), catalog, \<lparr>items = [(0, 2)]\<rparr>) \<and>
   (\<exists>c'. add 1751328000 catalog 0 1 \<lparr>items = [(0, 2)]\<rparr> = (None, catalog, c') \<and>
      map_of (items c') 0 = Some 3) \<and>
   (\<exists>c'. add 1751328000 catalog 4 1 \<lparr>items = [(0, 2)]\<rparr> = (None, catalog, c') \<and>
      map_of (items c') 4 = Some 1 \<and> map_of (items c') 0 = Some 2)"
proof -
  have wf: "wf_cart \<lparr>items = [(0, 2)]\<rparr>" by (simp add: wf_cart_def)
  have a: "add 1751328000 catalog 2 0 \<lparr>items = [(0, 2)]\<rparr> =
      (Some InvalidQuantity, catalog, \<lparr>items = [(0, 2)]\<rparr>)"
    using add_checks [OF wf, of 0 1751328000 catalog 2] by simp
  have b: "add 1767225600 catalog 0 1 \<lparr>items = [(0, 2)]\<rparr> =
      (Some (ExpiredProduct ''Cheese''), catalog, \<lparr>items = [(0, 2)]\<rparr>)"
    using add_checks [OF wf, of 1 1767225600 catalog 0] by (simp add: isExpired_def scenario_defs)
  have c: "add 1751328000 catalog 0 10 \<lparr>items = [(0, 2)]\<rparr> =
      (Some (InsufficientStock ''Cheese''), catalog, \<lparr>items = [(0, 2)]\<rparr>)"
    using add_checks [OF wf, of 10 1751328000 catalog 0] by (simp add: isExpired_def scenario_defs)
  have d: "\<exists>c'. add 1751328000 catalog 0 1 \<lparr>items = [(0, 2)]\<rparr> = (None, catalog, c') \<and>
      map_of (items c') 0 = Some 3"
    using add_checks [OF wf, of 1 1751328000 catalog 0] by (auto simp: isExpired_def scenario_defs)
  have e: "\<exists>c'. add 1751328000 catalog 4 1 \<lparr>items = [(0, 2)]\<rparr> = (None, catalog, c') \<and>
      map_of (items c') 4 = Some 1 \<and> map_of (items c') 0 = Some 2"
    using add_checks [OF wf, of 1 1751328000 catalog 4] by (auto simp: isExpired_def scenario_defs)
  from a b c d e show ?thesis by blast
qed

text \<open>
  C5. When the cart is not empty, every line passes validation and the balance is not
  less than the total, \<open>checkout\<close> completes: the total, subtotal plus shipping fee, is
  subtracted from the balance, the stock of the product of each line is reduced by the
  quantity of the line, every other product is unchanged, and the cart is empty afterwards.
\<close>

theorem checkout_commits:
  assumes "wf_cart cart" and "items cart \<noteq> []"
    and "\<forall>e \<in> set (items cart). passes now h e"
    and "\<not> flt (balance customer) (fadd (subtotal_of h cart) (shipping_fee (weight_of h cart)))"
  shows "\<exists>shipment r h' customer' cart'.
    checkout now h customer cart = (Completed shipment r, h', customer', cart') \<and>
    balance customer' =
      fsub (balance customer) (fadd (subtotal_of h cart) (shipping_fee (weight_of h cart))) \<and>
    (\<forall>(p, q) \<in> set (items cart). h' p = (h p)\<lparr>quantity := quantity (h p) - q\<rparr>) \<and>
    (\<forall>p. p \<notin> fst ` set (items cart) \<longrightarrow> h' p = h p) \<and>
    items cart' = []"
proof -
  from assms(4) have "\<not> flt (balance customer) (total_of h cart)"
    by (simp add: total_of_def)
  from checkout_commit [OF assms(2,3) this] obtain shipment r where
    run: "checkout now h customer cart =
      (Completed shipment r, reduce_all (items cart) h,
       customer\<lparr>balance := fsub (balance customer) (total_of h cart)\<rparr>, cart\<lparr>items := []\<rparr>)"
    by blast
  from assms(1) have d: "distinct (map fst (items cart))"
    by (simp add: wf_cart_def strict_sorted_iff)
  have "\<forall>(p, q) \<in> set (items cart).
      reduce_all (items cart) h p = (h p)\<lparr>quantity := quantity (h p) - q\<rparr>"
    using reduce_all_entry [OF d] by (auto simp: reduceQuantity_def)
  moreover have "\<forall>p. p \<notin> fst ` set (items cart) \<longrightarrow> reduce_all (items cart) h p = h p"
    using reduce_all_other by blast
  ultimately show ?thesis
    using run by (simp add: total_of_def)
qed

text \<open>
  Scenario A of the specification: two units of cheese and one scratch card give the
  subtotal 250, the weight 0.8, the fee 24 and the total 274; the balance falls from 1000
  by 274 and the stock of cheese from 5 to 3.
\<close>

theorem checkout_commits_witness:
  "add_all 1751328000 catalog [(0, 2), (4, 1)] \<lparr>items = []\<rparr> =
     (None, catalog, \<lparr>items = [(0, 2), (4, 1)]\<rparr>) \<and>
   subtotal_of catalog \<lparr>items = [(0, 2), (4, 1)]\<rparr> = Finite 250 \<and>
   weight_of catalog \<lparr>items = [(0, 2), (4, 1)]\<rparr> = round_to_double (8 / 10) \<and>
   shipping_fee (round_to_double (8 / 10)) = Finite 24 \<and>
   fadd (Finite 250) (Finite 24) = Finite 274 \<and>
   (\<exists>shipment r h' customer' cart'.
      checkout 1751328000 catalog ali \<lparr>items = [(0, 2), (4, 1)]\<rparr> =
        (Completed shipment r, h', customer', cart') \<and>
      balance ali = Finite 1000 \<and> balance customer' = Finite (1000 - 274) \<and>
      quantity (catalog 0) = 5 \<and> quantity (h' 0) = 3 \<and>
      quantity (catalog 4) = 20 \<and> quantity (h' 4) = 19 \<and>
      h' 1 = catalog 1 \<and> h' 2 = catalog 2 \<and> h' 3 = catalog 3 \<and>
      items cart' = [])"
proof -
  let ?cart = "\<lparr>items = [(0, 2), (4, 1)]\<rparr>"
  have adds: "add_all 1751328000 catalog [(0, 2), (4, 1)] \<lparr>items = []\<rparr> = (None, catalog, ?cart)"
    by (simp add: add_def isExpired_def scenario_defs)
  have wf: "wf_cart ?cart" and ne: "items ?cart \<noteq> []"
    by (simp_all add: wf_cart_def)
  have ok: "\<forall>e \<in> set (items ?cart). passes 1751328000 catalog e"
    by (simp add: passes_def isExpired_def scenario_defs)
  have sub: "subtotal_of catalog ?cart = Finite 250"
    by (simp add: subtotal_of_def double_sum_def line_total_def scenario_defs double_defs
        split del: if_split)
  have r8: "round_to_double (8 / 10) = Finite (3602879701896397 / 4503599627370496)"
    by (simp add: double_defs split del: if_split)
  have w: "weight_of catalog ?cart = round_to_double (8 / 10)"
    unfolding r8
    by (simp add: weight_of_def double_sum_def shipment_units_def as_shippable_def scenario_defs
        weight_literals replicate_numeral double_defs split del: if_split)
  have fee: "shipping_fee (round_to_double (8 / 10)) = Finite 24"
    unfolding r8 by (simp add: shipping_fee_def double_defs split del: if_split)
  have tot: "fadd (Finite 250) (Finite 24) = Finite 274"
    by (simp add: double_defs split del: if_split)
  have bal: "\<not> flt (balance ali) (fadd (subtotal_of catalog ?cart) (shipping_fee (weight_of catalog ?cart)))"
    unfolding sub w fee tot by (simp add: ali_def)
  from checkout_commits [OF wf ne ok bal] obtain shipment r h' customer' cart' where
    run: "checkout 1751328000 catalog ali ?cart = (Completed shipment r, h', customer', cart')"
    and b: "balance customer' =
      fsub (balance ali) (fadd (subtotal_of catalog ?cart) (shipping_fee (weight_of catalog ?cart)))"
    and st: "\<forall>(p, q) \<in> set (items ?cart). h' p = (catalog p)\<lparr>quantity := quantity (catalog p) - q\<rparr>"
    and rest: "\<forall>p. p \<notin> fst ` set (items ?cart) \<longrightarrow> h' p = catalog p"
    and emp: "items cart' = []"
    by blast
  have "fsub (Finite 1000) (Finite 274) = Finite (1000 - 274)"
    by (simp add: double_defs split del: if_split)
  with b have b': "balance ali = Finite 1000" "balance customer' = Finite (1000 - 274)"
    unfolding sub w fee tot by (simp_all add: ali_def)
  from st have q: "quantity (h' 0) = 3" "quantity (h' 4) = 19"
    by (simp_all add: scenario_defs)
  from rest have r: "h' 1 = catalog 1" "h' 2 = catalog 2" "h' 3 = catalog 3"
    by simp_all
  have q0: "quantity (catalog 0) = 5" "quantity (catalog 4) = 20"
    by (simp_all add: scenario_defs)
  from adds sub w fee tot run b' q r q0 emp show ?thesis by blast
qed

text \<open>
  C6, as stated, fails: the scratch card (address 4) is added before the cheese
  (address 0), and the cart and the receipt list the cheese first.
\<close>

theorem cart_order_counterexample:
  "add_all 1751328000 catalog [(4, 1), (0, 2)] \<lparr>items = []\<rparr> =
     (None, catalog, \<lparr>items = [(0, 2), (4, 1)]\<rparr>) \<and>
   map fst [(0, 2), (4, 1) :: addr \<times> int] \<noteq> map fst [(4, 1), (0, 2)] \<and>
   fst (checkout 1751328000 catalog ali \<lparr>items = [(0, 2), (4, 1)]\<rparr>) =
     Completed (Some \<lparr>counts = [(2, ''Cheese'')], grams = [Some 400, Some 400], total_tenths = Some 8\<rparr>)
       \<lparr>lines = [(2, ''Cheese'', Some 200), (1, ''ScratchCard'', Some 50)],
          r_subtotal = Some 250, r_shipping = Some 24, r_amount = Some 274, r_balance = Some 726\<rparr>"
  by (simp add: run_defs scenario_defs weight_literals replicate_numeral split del: if_split)

text \<open>
  C6, amended. After any run of successful \<open>add\<close> calls on an empty cart, the entries
  of the cart are in ascending order of the products' addresses, whatever the order of
  the calls; the receipt of a completed \<open>checkout\<close> has one line for each entry, in that
  order.
\<close>

theorem cart_order:
  assumes "add_all now h calls \<lparr>items = []\<rparr> = (None, h', cart)"
  shows "map fst (items cart) = sorted_list_of_set (fst ` set calls) \<and>
    (\<forall>now' h'' customer shipment r s.
        checkout now' h'' customer cart = (Completed shipment r, s) \<longrightarrow>
          lines r = map (receipt_line h'') (items cart))"
proof -
  have "wf_cart \<lparr>items = []\<rparr>" by (simp add: wf_cart_def)
  with add_all_keys [OF assms]
  have keys: "fst ` set (items cart) = fst ` set calls" and wf: "wf_cart cart"
    by simp_all
  from wf have "map fst (items cart) = sorted_list_of_set (set (map fst (items cart)))"
    unfolding wf_cart_def by (rule sorted_keys_unique)
  with keys have first: "map fst (items cart) = sorted_list_of_set (fst ` set calls)"
    by simp
  have second: "lines r = map (receipt_line h'') (items cart)"
    if run: "checkout now' h'' customer cart = (Completed shipment r, s)"
    for now' h'' customer shipment r s
  proof -
    from checkout_Completed [OF run] have
      "items cart \<noteq> []" "\<forall>e \<in> set (items cart). passes now' h'' e"
      "\<not> flt (balance customer) (total_of h'' cart)"
      by simp_all
    from checkout_commit [OF this, of ] run show ?thesis by auto
  qed
  from first second show ?thesis by blast
qed

text \<open>Four calls, the biscuits twice; the entries are by address.\<close>

theorem cart_order_witness:
  "add_all 1751328000 catalog [(4, 1), (1, 1), (0, 2), (1, 1)] \<lparr>items = []\<rparr> =
     (None, catalog, \<lparr>items = [(0, 2), (1, 2), (4, 1)]\<rparr>) \<and>
   sorted_list_of_set (fst ` set [(4, 1), (1, 1), (0, 2), (1, 1 :: int)]) = [0, 1, 4 :: addr] \<and>
   fst (checkout 1751328000 catalog ali \<lparr>items = [(0, 2), (1, 2), (4, 1)]\<rparr>) =
     Completed
       (Some \<lparr>counts = [(2, ''Cheese''), (2, ''Biscuits'')], grams = [Some 400, Some 400, Some 700, Some 700],
          total_tenths = Some 22\<rparr>)
       \<lparr>lines = [(2, ''Cheese'', Some 200), (2, ''Biscuits'', Some 300), (1, ''ScratchCard'', Some 50)],
          r_subtotal = Some 550, r_shipping = Some 66, r_amount = Some 616, r_balance = Some 384\<rparr>"
proof -
  have run: "add_all 1751328000 catalog [(4, 1), (1, 1), (0, 2), (1, 1)] \<lparr>items = []\<rparr> =
     (None, catalog, \<lparr>items = [(0, 2), (1, 2), (4, 1)]\<rparr>)"
    by (simp add: run_defs scenario_defs weight_literals replicate_numeral split del: if_split)
  from cart_order [OF run]
  have "sorted_list_of_set (fst ` set [(4, 1), (1, 1), (0, 2), (1, 1 :: int)]) = [0, 1, 4 :: addr]"
    by simp
  moreover have "fst (checkout 1751328000 catalog ali \<lparr>items = [(0, 2), (1, 2), (4, 1)]\<rparr>) =
     Completed
       (Some \<lparr>counts = [(2, ''Cheese''), (2, ''Biscuits'')], grams = [Some 400, Some 400, Some 700, Some 700],
          total_tenths = Some 22\<rparr>)
       \<lparr>lines = [(2, ''Cheese'', Some 200), (2, ''Biscuits'', Some 300), (1, ''ScratchCard'', Some 50)],
          r_subtotal = Some 550, r_shipping = Some 66, r_amount = Some 616, r_balance = Some 384\<rparr>"
    by (simp add: run_defs scenario_defs weight_literals replicate_numeral split del: if_split)
  ultimately show ?thesis using run by simp
qed

text \<open>
  C7 fails on the code: \<open>add\<close> compares the requested quantity with the stock and not
  the quantity accumulated in the entry. With five units of cheese in stock, two additions
  of three units succeed and leave an entry of six.
\<close>

theorem add_twice_exceeds_stock:
  "quantity (catalog 0) = 5 \<and>
   add_all 1751328000 catalog [(0, 3), (0, 3)] \<lparr>items = []\<rparr> =
     (None, catalog, \<lparr>items = [(0, 6)]\<rparr>)"
  by (simp add: run_defs scenario_defs weight_literals replicate_numeral split del: if_split)

text \<open>
  C8. Every amount on the receipt is the \<open>static_cast<int>\<close> of the \<open>double\<close> that
  \<open>checkout\<close> has computed: the amount of each line of price times quantity, then
  subtotal, shipping fee, total and the balance after the deduction. The conversion
  truncates toward zero: its result is no larger than its argument in absolute value and
  differs from it by less than 1. A price of 33.33 times a quantity of 3 is the double
  99.99, reported as 99.
\<close>

theorem reported_amounts_truncated:
  "checkout now h customer cart = (Completed shipment r, h', customer', cart') \<Longrightarrow>
     lines r =
       map (\<lambda>(p, q). (q, name (h p), static_cast_int (fmul (price (h p)) (int_to_double q))))
         (items cart) \<and>
     r_subtotal r = static_cast_int (subtotal_of h cart) \<and>
     r_shipping r = static_cast_int (shipping_fee (weight_of h cart)) \<and>
     r_amount r = static_cast_int (fadd (subtotal_of h cart) (shipping_fee (weight_of h cart))) \<and>
     r_balance r = static_cast_int (balance customer') \<and>
     (\<forall>x n. static_cast_int x = Some n \<longrightarrow>
        (\<exists>a. x = Finite a \<and> \<bar>of_int n\<bar> \<le> \<bar>a\<bar> \<and> \<bar>a - of_int n\<bar> < 1)) \<and>
     fmul (round_to_double (3333 / 100)) (int_to_double 3) =
       Finite (7036170730324623 / 70368744177664) \<and>
     static_cast_int (Finite (7036170730324623 / 70368744177664)) = Some 99"
proof -
  assume run: "checkout now h customer cart = (Completed shipment r, h', customer', cart')"
  have line: "receipt_line h =
      (\<lambda>(p, q). (q, name (h p), static_cast_int (fmul (price (h p)) (int_to_double q))))"
    by (simp add: fun_eq_iff receipt_line_def)
  have ex: "fmul (round_to_double (3333 / 100)) (int_to_double 3) =
       Finite (7036170730324623 / 70368744177664)"
    "static_cast_int (Finite (7036170730324623 / 70368744177664)) = Some 99"
    by (simp_all add: static_cast_int_def double_defs split del: if_split)
  from checkout_receipt [OF run] static_cast_int_toward_zero ex show ?thesis
    by (simp add: line total_of_def)
qed

text \<open>Three pens at 33.33: the line, the subtotal and the amount are reported as 99.\<close>

theorem reported_amounts_truncated_witness:
  "fst (checkout 0
      (\<lambda>a. \<lparr>name = ''Pen'', price = round_to_double (3333 / 100), quantity = 10, variety = SimpleProduct\<rparr>)
      \<lparr>customer_name = ''Ali'', balance = Finite 1000\<rparr> \<lparr>items = [(0, 3)]\<rparr>) =
     Completed None
        \<lparr>lines = [(3, ''Pen'', Some 99)], r_subtotal = Some 99, r_shipping = Some 0,
           r_amount = Some 99, r_balance = Some 900\<rparr>"
proof -
  let ?h = "\<lambda>a::addr. \<lparr>name = ''Pen'', price = round_to_double (3333 / 100), quantity = 10,
    variety = SimpleProduct\<rparr>"
  let ?c = "\<lparr>customer_name = ''Ali'', balance = Finite 1000\<rparr>"
  let ?cart = "\<lparr>items = [(0, 3)]\<rparr>"
  obtain r h' customer' cart' where
    run: "checkout 0 ?h ?c ?cart = (Completed None r, h', customer', cart')"
    and bal: "balance customer' = Finite (3958285840458711 / 4398046511104)"
    by (simp add: run_defs split del: if_split)
  have price: "round_to_double (3333 / 100) = Finite (2345390243441541 / 70368744177664)"
    by (simp add: double_defs split del: if_split)
  have sub: "subtotal_of ?h ?cart = Finite (7036170730324623 / 70368744177664)"
    by (simp add: subtotal_of_def double_sum_def line_total_def price)
       (simp add: double_defs split del: if_split)
  have w: "weight_of ?h ?cart = Finite 0"
    by (simp add: weight_of_def double_sum_def shipment_units_def as_shippable_def)
  have fee: "shipping_fee (Finite 0) = Finite 0"
    by (simp add: shipping_fee_def double_defs split del: if_split)
  have tot: "fadd (Finite (7036170730324623 / 70368744177664)) (Finite 0) =
      Finite (7036170730324623 / 70368744177664)"
    by (simp add: double_defs split del: if_split)
  from reported_amounts_truncated [OF run] have
    "r = \<lparr>lines = [(3, ''Pen'', Some 99)], r_subtotal = Some 99, r_shipping = Some 0,
           r_amount = Some 99, r_balance = Some 900\<rparr>"
    unfolding sub w fee tot bal
    by (simp add: price static_cast_int_def fraction_simps)
  with run show ?thesis by simp
qed

text \<open>
  C9, as stated, fails: a unit of 1.2506 kg is printed as 1251 g, the nearest whole
  number of grams, where truncation gives 1250.
\<close>

theorem ship_display_counterexample:
  "ship [\<lparr>getName = ''Cable'', getWeight = round_to_double (12506 / 10000)\<rparr>] [''Cable'' \<mapsto> 1] =
     Inr (Some \<lparr>counts = [(1, ''Cable'')], grams = [Some 1251], total_tenths = Some 13\<rparr>) \<and>
   static_cast_int (fmul (round_to_double (12506 / 10000)) (int_to_double 1000)) = Some 1250"
  by (simp add: run_defs split del: if_split)

text \<open>
  C9, amended. The notice has one weight line for each unit, in order: the \<open>double\<close>
  product of the weight and 1000, rounded to the nearest whole number of grams, so that
  the number printed differs from that product by at most half a gram. The total printed
  is the sum of the unit weights, added in \<open>double\<close> arithmetic, rounded to the nearest
  tenth of a kilogram.
\<close>

theorem ship_display:
  "ship shippables nameToCount = Inr (Some n) \<Longrightarrow>
     grams n = map (\<lambda>item. fixed 0 (fmul (getWeight item) (int_to_double 1000))) shippables \<and>
     total_tenths n = fixed 1 (double_sum (map getWeight shippables)) \<and>
     (\<forall>x k. fixed 0 x = Some k \<longrightarrow> (\<exists>a. x = Finite a \<and> \<bar>of_int k - a\<bar> \<le> 1 / 2)) \<and>
     (\<forall>x k. fixed 1 x = Some k \<longrightarrow> (\<exists>a. x = Finite a \<and> \<bar>of_int k / 10 - a\<bar> \<le> 1 / 20))"
proof -
  assume run: "ship shippables nameToCount = Inr (Some n)"
  then have g: "grams n = map (\<lambda>item. fixed 0 (fmul (getWeight item) (int_to_double 1000))) shippables"
    and t: "total_tenths n = fixed 1 (double_sum (map getWeight shippables))"
    by (auto simp: ship_def weight_lines_eq double_sum_def split: if_splits option.splits)
  have near0: "\<exists>a. x = Finite a \<and> \<bar>of_int k - a\<bar> \<le> 1 / 2" if "fixed 0 x = Some k" for x k
  proof -
    from that obtain a where x: "x = Finite a" and k: "k = round_half_even a"
      by (cases x) (auto simp: fixed_def)
    from round_half_even_nearest [of a] x k show ?thesis by simp
  qed
  have near1: "\<exists>a. x = Finite a \<and> \<bar>of_int k / 10 - a\<bar> \<le> 1 / 20" if "fixed 1 x = Some k" for x k
  proof -
    from that obtain a where x: "x = Finite a" and k: "k = round_half_even (a * 10)"
      by (cases x) (auto simp: fixed_def)
    from round_half_even_nearest [of "a * 10"] k
    have "\<bar>of_int k - a * 10\<bar> \<le> 1 / 2" by simp
    then have "\<bar>of_int k / 10 - a\<bar> \<le> 1 / 20"
      by (simp add: abs_le_iff field_simps)
    with x show ?thesis by simp
  qed
  from g t near0 near1 show ?thesis by blast
qed

text \<open>
  A unit of 0.1 kg and one of 0.25 kg: 100 g and 250 g; their sum is the double just
  below 0.35, and the total printed is 0.3 kg.
\<close>

theorem ship_display_witness:
  "ship [\<lparr>getName = ''Gum'', getWeight = round_to_double (1 / 10)\<rparr>,
         \<lparr>getName = ''Tea'', getWeight = round_to_double (25 / 100)\<rparr>]
      [''Gum'' \<mapsto> 1, ''Tea'' \<mapsto> 1] =
     Inr (Some \<lparr>counts = [(1, ''Gum''), (1, ''Tea'')], grams = [Some 100, Some 250],
            total_tenths = Some 3\<rparr>) \<and>
   fmul (round_to_double (1 / 10)) (int_to_double 1000) = Finite 100 \<and>
   fmul (round_to_double (25 / 100)) (int_to_double 1000) = Finite 250 \<and>
   double_sum [round_to_double (1 / 10), round_to_double (25 / 100)] =
     Finite (3152519739159347 / 9007199254740992)"
proof -
  have run: "ship [\<lparr>getName = ''Gum'', getWeight = round_to_double (1 / 10)\<rparr>,
         \<lparr>getName = ''Tea'', getWeight = round_to_double (25 / 100)\<rparr>]
      [''Gum'' \<mapsto> 1, ''Tea'' \<mapsto> 1] =
     Inr (Some \<lparr>counts = [(1, ''Gum''), (1, ''Tea'')], grams = [Some 100, Some 250],
            total_tenths = Some 3\<rparr>)"
    by (simp add: run_defs split del: if_split)
  have vals: "fmul (round_to_double (1 / 10)) (int_to_double 1000) = Finite 100"
    "fmul (round_to_double (25 / 100)) (int_to_double 1000) = Finite 250"
    "double_sum [round_to_double (1 / 10), round_to_double (25 / 100)] =
       Finite (3152519739159347 / 9007199254740992)"
    by (simp_all add: double_sum_def double_defs split del: if_split)
  from ship_display [OF run] have
    "fixed 0 (Finite 100) = Some 100 \<and> fixed 0 (Finite 250) = Some 250 \<and>
     fixed 1 (Finite (3152519739159347 / 9007199254740992)) = Some 3"
    unfolding list.map shippable.simps vals notice.simps by simp
  with run vals show ?thesis by simp
qed

text \<open>
  C10. A completed \<open>checkout\<close> subtracts from the balance the total as computed,
  subtotal plus shipping fee, and not the truncated amount that the receipt shows. The
  balance on the receipt is the truncation of the balance stored, which exceeds it by its
  fractional part.
\<close>

theorem balance_deducted_exactly:
  "checkout now h customer cart = (Completed shipment r, h', customer', cart') \<Longrightarrow>
     balance customer' =
       fsub (balance customer) (fadd (subtotal_of h cart) (shipping_fee (weight_of h cart))) \<and>
     r_amount r = static_cast_int (fadd (subtotal_of h cart) (shipping_fee (weight_of h cart))) \<and>
     r_balance r = static_cast_int (balance customer') \<and>
     (\<forall>v n. balance customer' = Finite v \<and> r_balance r = Some n \<longrightarrow>
        v - of_int n = frac v)"
proof -
  assume run: "checkout now h customer cart = (Completed shipment r, h', customer', cart')"
  from checkout_receipt [OF run] have
    b: "balance customer' = fsub (balance customer) (total_of h cart)"
    and a: "r_amount r = static_cast_int (total_of h cart)"
    and d: "r_balance r = static_cast_int (balance customer')"
    and ge: "\<not> flt (balance customer) (total_of h cart)"
    by simp_all
  have frac: "v - of_int n = frac v"
    if v: "balance customer' = Finite v" and n: "r_balance r = Some n" for v n
  proof -
    from b v fsub_Finite obtain x t where
      x: "balance customer = Finite x" and t: "total_of h cart = Finite t"
      and rd: "round_to_double (x - t) = Finite v"
      by metis
    from ge x t have "0 \<le> x - t" by simp
    from round_to_double_nonneg [OF this rd] have "0 \<le> v" .
    moreover from d v n have "static_cast_int (Finite v) = Some n" by simp
    ultimately show ?thesis by (rule static_cast_int_nonneg)
  qed
  from a b d have "balance customer' =
       fsub (balance customer) (fadd (subtotal_of h cart) (shipping_fee (weight_of h cart)))"
    "r_amount r = static_cast_int (fadd (subtotal_of h cart) (shipping_fee (weight_of h cart)))"
    "r_balance r = static_cast_int (balance customer')"
    by (simp_all add: total_of_def)
  with frac show ?thesis by blast
qed

text \<open>
  Three pens at 33.33 and a balance of 100: the balance stored is the double
  0.010000000000005116, the balance printed is 0.
\<close>

theorem balance_deducted_exactly_witness:
  "fst (checkout 0
      (\<lambda>a. \<lparr>name = ''Pen'', price = round_to_double (3333 / 100), quantity = 10, variety = SimpleProduct\<rparr>)
      \<lparr>customer_name = ''Ali'', balance = Finite 100\<rparr> \<lparr>items = [(0, 3)]\<rparr>) =
     Completed None
        \<lparr>lines = [(3, ''Pen'', Some 99)], r_subtotal = Some 99, r_shipping = Some 0,
           r_amount = Some 99, r_balance = Some 0\<rparr> \<and>
   balance (fst (snd (snd (checkout 0
      (\<lambda>a. \<lparr>name = ''Pen'', price = round_to_double (3333 / 100), quantity = 10, variety = SimpleProduct\<rparr>)
      \<lparr>customer_name = ''Ali'', balance = Finite 100\<rparr> \<lparr>items = [(0, 3)]\<rparr>)))) =
     Finite (703687441777 / 70368744177664) \<and>
   (703687441777 / 70368744177664 :: rat) - of_int 0 = frac (703687441777 / 70368744177664)"
proof -
  let ?h = "\<lambda>a::addr. \<lparr>name = ''Pen'', price = round_to_double (3333 / 100), quantity = 10,
    variety = SimpleProduct\<rparr>"
  let ?c = "\<lparr>customer_name = ''Ali'', balance = Finite 100\<rparr>"
  let ?cart = "\<lparr>items = [(0, 3)]\<rparr>"
  obtain h' cart' where
    run: "checkout 0 ?h ?c ?cart =
      (Completed None
        \<lparr>lines = [(3, ''Pen'', Some 99)], r_subtotal = Some 99, r_shipping = Some 0,
           r_amount = Some 99, r_balance = Some 0\<rparr>,
       h', \<lparr>customer_name = ''Ali'', balance = Finite (703687441777 / 70368744177664)\<rparr>, cart')"
    by (simp add: run_defs split del: if_split)
  from balance_deducted_exactly [OF run]
  have "(703687441777 / 70368744177664 :: rat) - of_int 0 = frac (703687441777 / 70368744177664)"
    by simp
  with run show ?thesis by simp
qed

end
